theory Spec2Isabelle
  imports Complex_Main
begin

section \<open>Values shared by the server node and its caches\<close>

text \<open>
  Errors are values. The source tells one kind apart, the juju \<^verbatim>\<open>NotAssigned\<close> kind
  (\<^verbatim>\<open>errors.IsNotAssigned\<close>); \<^verbatim>\<open>errors.Trace\<close> wraps an error and keeps its cause, and
  \<^verbatim>\<open>IsNotAssigned\<close> looks at the cause.
\<close>

datatype error = NotAssigned string | OtherError string | Trace error

fun Cause :: "error \<Rightarrow> error" where
  "Cause (Trace e) = Cause e"
| "Cause e = e"

fun IsNotAssigned :: "error \<Rightarrow> bool" where
  "IsNotAssigned e = (case Cause e of NotAssigned m \<Rightarrow> True | _ \<Rightarrow> False)"

text \<open>
  A \<^verbatim>\<open>float64\<close> is a real number or one of the two infinities (\<^verbatim>\<open>math.Inf(-1)\<close> is the
  lower bound of the full refresh). Rounding and NaN are outside the model: the scores the
  code compares are Unix seconds, which \<^verbatim>\<open>float64(ts.Unix())\<close> converts exactly below
  \<open>2^53\<close>, and the literals 0.0, 3.0 and 5.0.
\<close>

datatype float64 = NegInf | Finite real | PosInf

fun le64 :: "float64 \<Rightarrow> float64 \<Rightarrow> bool" where
  "le64 NegInf y = True"
| "le64 x PosInf = True"
| "le64 (Finite a) (Finite b) = (a \<le> b)"
| "le64 x y = False"

text \<open>\<^verbatim>\<open>time.Time\<close> is read only through \<^verbatim>\<open>Unix()\<close>: a time is its Unix second.\<close>

type_synonym Time = int

definition float64_of_Unix :: "Time \<Rightarrow> float64" where
  "float64_of_Unix t = Finite (of_int t)"

text \<open>Log levels of \<^verbatim>\<open>base.Logger()\<close>; \<^verbatim>\<open>Fatal\<close> logs and exits the process.\<close>

datatype level = Debug | Info | Error | Fatal

section \<open>The cache store as the caches see it\<close>

text \<open>
  \<^verbatim>\<open>cache.Scored\<close> and the two collections the caches read. The key strings are
  declared outside the files at hand, so the keys are an enumeration.
\<close>

record Scored =
  Id :: string
  Score :: float64

datatype cache_key = PopularItems | HiddenItemsV2

definition RemoveScores :: "Scored list \<Rightarrow> string list" where
  "RemoveScores items = map Id items"

text \<open>
  The two methods of \<^verbatim>\<open>cache.Database\<close> that the caches call, with what they answer at
  the moment of a call: \<^verbatim>\<open>GetSorted(key, begin, end)\<close> by rank and
  \<^verbatim>\<open>GetSortedByScore(key, begin, end)\<close> by score, each returning the entries or an error.
\<close>

record cache_Database =
  GetSorted :: "cache_key \<Rightarrow> int \<Rightarrow> int \<Rightarrow> error + Scored list"
  GetSortedByScore :: "cache_key \<Rightarrow> float64 \<Rightarrow> float64 \<Rightarrow> error + Scored list"

text \<open>
  Modelled from the spec: the storage engine behind \<^verbatim>\<open>cache.Database\<close> is missing. The
  spec's capability contract is a sorted collection with a range query by rank, in ascending
  score order, and a range query by score bounds \<open>[min, max]\<close> returning the pairs whose
  score falls in that inclusive range. A collection is held in rank order; a store answers
  each collection with its entries or with an error (unreachable, never populated). Rank
  \<open>-1\<close> counts from the end, so that \<open>0, -1\<close> is the full range the refresh asks for.
\<close>

type_synonym cache_store = "cache_key \<Rightarrow> error + Scored list"

definition rank_range :: "int \<Rightarrow> int \<Rightarrow> Scored list \<Rightarrow> Scored list" where
  "rank_range b e xs =
     (let n = int (length xs);
          b' = (if b < 0 then max 0 (n + b) else b);
          e' = (if e < 0 then n + e else min e (n - 1))
      in if e' < b' then [] else take (nat (e' - b' + 1)) (drop (nat b') xs))"

definition score_range :: "float64 \<Rightarrow> float64 \<Rightarrow> Scored list \<Rightarrow> Scored list" where
  "score_range lo hi xs = filter (\<lambda>x. le64 lo (Score x) \<and> le64 (Score x) hi) xs"

definition store_client :: "cache_store \<Rightarrow> cache_Database" where
  "store_client db =
     \<lparr>GetSorted = (\<lambda>key b e. case db key of Inl err \<Rightarrow> Inl err | Inr xs \<Rightarrow> Inr (rank_range b e xs)),
      GetSortedByScore = (\<lambda>key lo hi. case db key of Inl err \<Rightarrow> Inl err | Inr xs \<Rightarrow> Inr (score_range lo hi xs))\<rparr>"

text \<open>What a cache operation leaves behind besides its result.\<close>

datatype cache_event = CacheLog level string | Println "Scored list"

section \<open>Popularity cache\<close>

record PopularItemsCache =
  scores :: "string \<rightharpoonup> float64"
  pc_test :: bool

text \<open>
  The constructors start with an empty map; the one for tests sets the test flag. The
  refresh loop that \<^verbatim>\<open>NewPopularItemsCache\<close> starts calls \<^verbatim>\<open>sync\<close>, logs and sleeps
  for \<^verbatim>\<open>CacheExpire\<close>, for ever.
\<close>

definition NewPopularItemsCache :: PopularItemsCache where
  "NewPopularItemsCache = \<lparr>scores = Map.empty, pc_test = False\<rparr>"

definition newPopularItemsCacheForTest :: PopularItemsCache where
  "newPopularItemsCacheForTest = \<lparr>scores = Map.empty, pc_test = True\<rparr>"

text \<open>
  \<^verbatim>\<open>PopularItemsCache.sync\<close>: the full range query; on an error the cache is left as it is
  (logged unless the error is of the NotAssigned kind); otherwise a fresh map is filled, a
  later entry for the same id overwriting an earlier one, and published.
\<close>

definition PopularItemsCache_sync ::
    "cache_Database \<Rightarrow> PopularItemsCache \<Rightarrow> PopularItemsCache \<times> cache_event list" where
  "PopularItemsCache_sync CacheClient sc =
     (case GetSorted CacheClient PopularItems 0 (-1) of
        Inl err \<Rightarrow>
          (sc, if \<not> IsNotAssigned err then [CacheLog Error ''failed to get popular items''] else [])
      | Inr items \<Rightarrow>
          (sc\<lparr>scores := foldl (\<lambda>m item. m(Id item \<mapsto> Score item)) Map.empty items\<rparr>, []))"

text \<open>
  \<^verbatim>\<open>GetSortedScore\<close>: in test mode the cache is refreshed first; a missing key reads as
  the zero value of \<^verbatim>\<open>float64\<close>. The result is the score with the cache after the call.
\<close>

definition GetSortedScore ::
    "cache_Database \<Rightarrow> PopularItemsCache \<Rightarrow> string \<Rightarrow> float64 \<times> PopularItemsCache" where
  "GetSortedScore CacheClient sc member =
     (let sc' = (if pc_test sc then fst (PopularItemsCache_sync CacheClient sc) else sc)
      in (case scores sc' member of None \<Rightarrow> Finite 0 | Some score \<Rightarrow> score, sc'))"

section \<open>Hidden-item cache\<close>

record HiddenItemsCache =
  hiddenItems :: "string set"
  updateTime :: Time
  hc_test :: bool

text \<open>
  \<^verbatim>\<open>NewHiddenItemsCache\<close> starts with the empty set and the zero \<^verbatim>\<open>time.Time\<close>, whose
  Unix second is that of 1 January of the year 1; it starts a refresh loop like the
  popularity cache's.
\<close>

definition NewHiddenItemsCache :: HiddenItemsCache where
  "NewHiddenItemsCache = \<lparr>hiddenItems = {}, updateTime = - 62135596800, hc_test = False\<rparr>"

text \<open>
  \<^verbatim>\<open>HiddenItemsCache.sync\<close> at time \<open>ts\<close>: the entries with a score from minus infinity to
  \<open>ts\<close>; on an error the cache is left as it is; otherwise the entries are printed when there
  are any, and their ids and \<open>ts\<close> are published together.
\<close>

definition HiddenItemsCache_sync ::
    "cache_Database \<Rightarrow> Time \<Rightarrow> HiddenItemsCache \<Rightarrow> HiddenItemsCache \<times> cache_event list" where
  "HiddenItemsCache_sync CacheClient ts hc =
     (case GetSortedByScore CacheClient HiddenItemsV2 NegInf (float64_of_Unix ts) of
        Inl err \<Rightarrow>
          (hc, if \<not> IsNotAssigned err then [CacheLog Error ''failed to load hidden items''] else [])
      | Inr score \<Rightarrow>
          (hc\<lparr>hiddenItems := set (RemoveScores score), updateTime := ts\<rparr>,
           if length score > 0 then [Println score] else []))"

text \<open>
  \<^verbatim>\<open>IsHidden\<close> at time \<open>now\<close>, returning Go's pair of a slice (\<open>None\<close> is nil) and an
  error (\<open>None\<close> is nil): the delta query runs from the snapshot's time to \<open>now\<close>.
\<close>

definition IsHidden ::
    "cache_Database \<Rightarrow> Time \<Rightarrow> HiddenItemsCache \<Rightarrow> string list \<Rightarrow> bool list option \<times> error option" where
  "IsHidden CacheClient now hc members =
     (case GetSortedByScore CacheClient HiddenItemsV2 (float64_of_Unix (updateTime hc)) (float64_of_Unix now) of
        Inl err \<Rightarrow> (None, Some (Trace err))
      | Inr score \<Rightarrow>
          (Some (map (\<lambda>t. t \<in> hiddenItems hc \<or> t \<in> set (RemoveScores score)) members), None))"

section \<open>The server node\<close>

text \<open>
  The configuration fields the server reads (\<^verbatim>\<open>Master.MetaTimeout\<close>,
  \<^verbatim>\<open>Server.CacheExpire\<close>, \<^verbatim>\<open>Database.DataStore\<close>, \<^verbatim>\<open>Database.CacheStore\<close>); durations
  are nanoseconds. The configuration is held by value.
\<close>

record config_Config =
  MetaTimeout :: int
  CacheExpire :: int
  DataStore :: string
  CacheStore :: string

text \<open>
  Connection handles are opaque: nil, the \<^verbatim>\<open>NoDatabase\<close> placeholder a new server
  starts with, or a connection, told apart by the address opened and a serial number.
\<close>

datatype handle = nil | NoDatabase | Connection string nat

record Server =
  DataClient :: handle
  CacheClient :: handle
  GorseConfig :: config_Config
  HttpHost :: string
  HttpPort :: int
  cachePath :: string
  dataPath :: string
  serverName :: string
  masterHost :: string
  masterPort :: int
  testMode :: bool
  cacheFile :: string

text \<open>\<^verbatim>\<open>NewServer\<close>, given the default configuration (declared outside the files at hand).\<close>

definition NewServer :: "config_Config \<Rightarrow> string \<Rightarrow> int \<Rightarrow> string \<Rightarrow> int \<Rightarrow> string \<Rightarrow> Server" where
  "NewServer GetDefaultConfig masterHost' masterPort' serverHost serverPort cacheFile' =
     \<lparr>DataClient = NoDatabase, CacheClient = NoDatabase, GorseConfig = GetDefaultConfig,
      HttpHost = serverHost, HttpPort = serverPort, cachePath = [], dataPath = [],
      serverName = [], masterHost = masterHost', masterPort = masterPort',
      testMode = False, cacheFile = cacheFile'\<rparr>"

subsection \<open>Requests to the coordinator\<close>

datatype NodeType = ServerNode | WorkerNode

record NodeInfo =
  NodeType :: NodeType
  NodeName :: string
  NodeHttpPort :: int

record Meta =
  Config :: string

text \<open>
  Modelled from the spec: the \<^verbatim>\<open>protocol.MasterClient\<close> interface is missing. The spec's
  coordinator contract has two requests, \<^verbatim>\<open>DescribeNode\<close> (registration) and
  \<^verbatim>\<open>GetMeta\<close> (pull the current configuration), each carrying the node kind, the node
  name and the HTTP port.
\<close>

datatype request = DescribeNode NodeInfo | GetMeta NodeInfo

text \<open>What the server does to the world, in order.\<close>

datatype event =
    Log level string
  | Rpc request
  | OpenData string
  | OpenCache string
  | Sleep int
  | WriteLocalCache string string
  | Dial string int

subsection \<open>The sync loop\<close>

text \<open>
  What the world answers during one pass of the loop: the coordinator's reply to
  \<^verbatim>\<open>GetMeta\<close>, and the pair that \<^verbatim>\<open>data.Open\<close> and \<^verbatim>\<open>cache.Open\<close> return for an address
  (Go returns a handle and an error together).
\<close>

record tick_env =
  GetMeta_reply :: "error + Meta"
  data_Open :: "string \<Rightarrow> handle \<times> error option"
  cache_Open :: "string \<Rightarrow> handle \<times> error option"

text \<open>
  \<^verbatim>\<open>json.Unmarshal(data, &s.GorseConfig)\<close> decodes into the configuration the server
  holds: it reads the target, leaves its result in the target and returns an error or nil.
  The decoder is a parameter of the model.
\<close>

type_synonym decoder = "string \<Rightarrow> config_Config \<Rightarrow> config_Config \<times> error option"

text \<open>The step "connect to cache store", up to the label \<^verbatim>\<open>sleep\<close>.\<close>

definition connect_cache :: "tick_env \<Rightarrow> Server \<Rightarrow> Server \<times> event list" where
  "connect_cache env s =
     (if cachePath s \<noteq> CacheStore (GorseConfig s) then
        (let (client, err) = cache_Open env (CacheStore (GorseConfig s));
             s1 = s\<lparr>CacheClient := client\<rparr>;
             ev = [Log Info ''connect cache store'', OpenCache (CacheStore (GorseConfig s))]
         in case err of
              Some e \<Rightarrow> (s1, ev @ [Log Error ''failed to connect cache store''])
            | None \<Rightarrow> (s1\<lparr>cachePath := CacheStore (GorseConfig s1)\<rparr>, ev))
      else (s, []))"

text \<open>The step "connect to data store"; it goes on to the cache store unless the open fails.\<close>

definition connect_data :: "tick_env \<Rightarrow> Server \<Rightarrow> Server \<times> event list" where
  "connect_data env s =
     (if dataPath s \<noteq> DataStore (GorseConfig s) then
        (let (client, err) = data_Open env (DataStore (GorseConfig s));
             s1 = s\<lparr>DataClient := client\<rparr>;
             ev = [Log Info ''connect data store'', OpenData (DataStore (GorseConfig s))]
         in case err of
              Some e \<Rightarrow> (s1, ev @ [Log Error ''failed to connect data store''])
            | None \<Rightarrow>
                (let (s2, ev2) = connect_cache env (s1\<lparr>dataPath := DataStore (GorseConfig s1)\<rparr>)
                 in (s2, ev @ ev2)))
      else connect_cache env s)"

text \<open>One pass of the loop body of \<^verbatim>\<open>Server.Sync\<close>, from the top to the label \<^verbatim>\<open>sleep\<close>.\<close>

definition tick :: "decoder \<Rightarrow> tick_env \<Rightarrow> Server \<Rightarrow> Server \<times> event list" where
  "tick Unmarshal env s =
     (let rpc = Rpc (GetMeta \<lparr>NodeType = ServerNode, NodeName = serverName s, NodeHttpPort = HttpPort s\<rparr>)
      in case GetMeta_reply env of
           Inl err \<Rightarrow> (s, [rpc, Log Error ''failed to get meta''])
         | Inr meta \<Rightarrow>
             (let (cfg, err) = Unmarshal (Config meta) (GorseConfig s);
                  s1 = s\<lparr>GorseConfig := cfg\<rparr>
              in case err of
                   Some e \<Rightarrow> (s1, [rpc, Log Error ''failed to parse master config''])
                 | None \<Rightarrow> (let (s2, ev) = connect_data env s1 in (s2, rpc # ev))))"

text \<open>
  The loop, run against the answers of the world pass by pass. In test mode it returns after
  the pass; otherwise it sleeps and goes round again, and never returns: when the answers
  run out the loop is still \<open>Running\<close>.
\<close>

datatype status = Returned | Running

fun Sync_loop :: "decoder \<Rightarrow> tick_env list \<Rightarrow> Server \<Rightarrow> status \<times> Server \<times> event list" where
  "Sync_loop Unmarshal [] s = (Running, s, [])"
| "Sync_loop Unmarshal (env # envs) s =
     (let (s1, ev) = tick Unmarshal env s
      in if testMode s1 then (Returned, s1, ev)
         else (let (st, s2, ev2) = Sync_loop Unmarshal envs s1
               in (st, s2, ev @ Sleep (MetaTimeout (GorseConfig s1)) # ev2)))"

definition Sync :: "decoder \<Rightarrow> tick_env list \<Rightarrow> Server \<Rightarrow> status \<times> Server \<times> event list" where
  "Sync Unmarshal envs s =
     (let (st, s1, ev) = Sync_loop Unmarshal envs s
      in (st, s1, Log Info ''start meta sync'' # ev))"

definition requests :: "event list \<Rightarrow> request list" where
  "requests ev = concat (map (\<lambda>e. case e of Rpc r \<Rightarrow> [r] | _ \<Rightarrow> []) ev)"

definition opens :: "event list \<Rightarrow> event list" where
  "opens ev = filter (\<lambda>e. case e of OpenData a \<Rightarrow> True | OpenCache a \<Rightarrow> True | _ \<Rightarrow> False) ev"

definition sleeps :: "event list \<Rightarrow> event list" where
  "sleeps ev = filter (\<lambda>e. case e of Sleep d \<Rightarrow> True | _ \<Rightarrow> False) ev"

subsection \<open>Identity bootstrap\<close>

record LocalCache =
  path :: string
  ServerName :: string

text \<open>
  What the world answers during \<^verbatim>\<open>Server.Serve\<close>: the pair \<^verbatim>\<open>LoadLocalCache\<close> returns for
  a path, the name \<^verbatim>\<open>base.GetRandomName\<close> draws, the error or nil of
  \<^verbatim>\<open>WriteLocalCache\<close> for a state, and of \<^verbatim>\<open>grpc.Dial\<close> for the coordinator's host and port.
\<close>

record serve_env =
  LoadLocalCache_reply :: "string \<Rightarrow> LocalCache \<times> error option"
  GetRandomName :: "int \<Rightarrow> string"
  WriteLocalCache_reply :: "LocalCache \<Rightarrow> error option"
  Dial_reply :: "string \<Rightarrow> int \<Rightarrow> error option"

datatype serve_result = Exit | Started Server

text \<open>
  \<^verbatim>\<open>Serve\<close> from "connect to master" on: a failed dial is fatal; otherwise the sync loop
  and the HTTP server are started.
\<close>

definition connect_master :: "serve_env \<Rightarrow> Server \<Rightarrow> serve_result \<times> event list" where
  "connect_master env s =
     (let ev = [Log Info ''start server'', Dial (masterHost s) (masterPort s)]
      in case Dial_reply env (masterHost s) (masterPort s) of
           Some e \<Rightarrow> (Exit, ev @ [Log Fatal ''failed to connect master''])
         | None \<Rightarrow> (Started s, ev))"

text \<open>\<^verbatim>\<open>Serve\<close>: the local store is read, a missing name is drawn and written back.\<close>

definition Serve :: "serve_env \<Rightarrow> Server \<Rightarrow> serve_result \<times> event list" where
  "Serve env s =
     (let (state, err) = LoadLocalCache_reply env (cacheFile s);
          ev = (case err of Some e \<Rightarrow> [Log Error ''failed to connect local store''] | None \<Rightarrow> [])
      in if ServerName state = [] then
           (let state1 = state\<lparr>ServerName := GetRandomName env 0\<rparr>;
                ev1 = ev @ [WriteLocalCache (path state1) (ServerName state1)]
            in case WriteLocalCache_reply env state1 of
                 Some e \<Rightarrow> (Exit, ev1 @ [Log Fatal ''failed to write meta''])
               | None \<Rightarrow>
                   (let (r, ev2) = connect_master env (s\<lparr>serverName := ServerName state1\<rparr>)
                    in (r, ev1 @ ev2)))
         else (let (r, ev2) = connect_master env (s\<lparr>serverName := ServerName state\<rparr>)
               in (r, ev @ ev2)))"

definition writes :: "event list \<Rightarrow> event list" where
  "writes ev = filter (\<lambda>e. case e of WriteLocalCache p n \<Rightarrow> True | _ \<Rightarrow> False) ev"

section \<open>Sample inputs\<close>

text \<open>Three cache stores: one holding two popular items, one unreachable, one never populated.\<close>

definition popular_store :: cache_store where
  "popular_store key =
     (case key of
        PopularItems \<Rightarrow> Inr [\<lparr>Id = ''b'', Score = Finite 3\<rparr>, \<lparr>Id = ''a'', Score = Finite 5\<rparr>]
      | HiddenItemsV2 \<Rightarrow> Inl (NotAssigned ''hidden_items_v2''))"

definition down_store :: cache_store where
  "down_store key = Inl (OtherError ''connection refused'')"

definition unpopulated_store :: cache_store where
  "unpopulated_store key = Inl (NotAssigned ''sorted set'')"

text \<open>A hidden-items collection before and after the item \<open>''x''\<close> is hidden at second 100.\<close>

definition hidden_before :: cache_store where
  "hidden_before key = Inr (case key of PopularItems \<Rightarrow> [] | HiddenItemsV2 \<Rightarrow> [\<lparr>Id = ''w'', Score = Finite 40\<rparr>])"

definition hidden_after :: cache_store where
  "hidden_after key =
     Inr (case key of PopularItems \<Rightarrow> []
          | HiddenItemsV2 \<Rightarrow> [\<lparr>Id = ''w'', Score = Finite 40\<rparr>, \<lparr>Id = ''x'', Score = Finite 100\<rparr>])"

text \<open>
  Three configuration blobs, and \<^verbatim>\<open>json.Unmarshal\<close> on them as the documentation of
  \<^verbatim>\<open>encoding/json\<close> describes it for a struct target: a member of the object is stored
  into the field of its name, a field the object does not mention keeps its value, a value
  that does not fit its field (a string for a duration) is skipped, decoding goes on, and the
  mismatch is returned as the error; malformed input is rejected before anything is stored.
  The sample decoder knows these three blobs and treats every other input as malformed.
\<close>

definition blob_a :: string where
  \<open>blob_a = ''{"Database":{"DataStore":"mysql://a","CacheStore":"redis://a"}}''\<close>

definition blob_b :: string where
  \<open>blob_b = ''{"Database":{"DataStore":"mysql://b"}}''\<close>

definition blob_bad :: string where
  \<open>blob_bad = ''{"Database":{"DataStore":"mysql://b"},"Master":{"MetaTimeout":"1m"}}''\<close>

definition sample_Unmarshal :: decoder where
  "sample_Unmarshal data cfg =
     (if data = blob_a then (cfg\<lparr>DataStore := ''mysql://a'', CacheStore := ''redis://a''\<rparr>, None)
      else if data = blob_b then (cfg\<lparr>DataStore := ''mysql://b''\<rparr>, None)
      else if data = blob_bad then
        (cfg\<lparr>DataStore := ''mysql://b''\<rparr>,
         Some (OtherError ''json: cannot unmarshal string into Go struct field of type time.Duration''))
      else (cfg, Some (OtherError ''unexpected end of JSON input'')))"

text \<open>A server after its identity bootstrap, and the answers of the world to one pass.\<close>

definition default_config :: config_Config where
  "default_config =
     \<lparr>MetaTimeout = 10000000000, CacheExpire = 10000000000, DataStore = [], CacheStore = []\<rparr>"

definition server0 :: Server where
  "server0 =
     (NewServer default_config ''127.0.0.1'' 8086 ''127.0.0.1'' 8087 ''/tmp/server'')\<lparr>serverName := ''node-1''\<rparr>"

definition env_up :: "string \<Rightarrow> tick_env" where
  "env_up blob =
     \<lparr>GetMeta_reply = Inr \<lparr>Config = blob\<rparr>,
      data_Open = (\<lambda>a. (Connection a 1, None)),
      cache_Open = (\<lambda>a. (Connection a 2, None))\<rparr>"

definition env_data_down :: "string \<Rightarrow> tick_env" where
  "env_data_down blob =
     \<lparr>GetMeta_reply = Inr \<lparr>Config = blob\<rparr>,
      data_Open = (\<lambda>a. (nil, Some (OtherError ''connection refused''))),
      cache_Open = (\<lambda>a. (Connection a 2, None))\<rparr>"

definition env_cache_down :: "string \<Rightarrow> tick_env" where
  "env_cache_down blob =
     \<lparr>GetMeta_reply = Inr \<lparr>Config = blob\<rparr>,
      data_Open = (\<lambda>a. (Connection a 1, None)),
      cache_Open = (\<lambda>a. (nil, Some (OtherError ''connection refused'')))\<rparr>"

definition env_master_down :: tick_env where
  "env_master_down =
     \<lparr>GetMeta_reply = Inl (OtherError ''rpc error: unavailable''),
      data_Open = (\<lambda>a. (Connection a 1, None)),
      cache_Open = (\<lambda>a. (Connection a 2, None))\<rparr>"

text \<open>
  The answers of the world to \<^verbatim>\<open>Serve\<close>: a local store that cannot be read, with and
  without a disk that can be written, and a local store that holds a name.
\<close>

definition boot_unreadable :: "error option \<Rightarrow> serve_env" where
  "boot_unreadable werr =
     \<lparr>LoadLocalCache_reply = (\<lambda>p. (\<lparr>path = p, ServerName = []\<rparr>, Some (OtherError ''no such file''))),
      GetRandomName = (\<lambda>n. ''brave-otter''),
      WriteLocalCache_reply = (\<lambda>st. werr),
      Dial_reply = (\<lambda>h p. None)\<rparr>"

definition boot_named :: serve_env where
  "boot_named =
     \<lparr>LoadLocalCache_reply = (\<lambda>p. (\<lparr>path = p, ServerName = ''node-1''\<rparr>, None)),
      GetRandomName = (\<lambda>n. ''brave-otter''),
      WriteLocalCache_reply = (\<lambda>st. Some (OtherError ''read-only file system'')),
      Dial_reply = (\<lambda>h p. None)\<rparr>"

section \<open>The caches: lookups and refreshes\<close>

lemma fold_scores_Some:
  "(\<exists>x \<in> set items. Id x = k) \<Longrightarrow> \<forall>x \<in> set items. Id x = k \<longrightarrow> Score x = v \<Longrightarrow>
   foldl (\<lambda>m item. m(Id item \<mapsto> Score item)) m0 items k = Some v"
  by (induction items rule: rev_induct) auto

lemma fold_scores_None:
  "\<forall>x \<in> set items. Id x \<noteq> k \<Longrightarrow>
   foldl (\<lambda>m item. m(Id item \<mapsto> Score item)) m0 items k = m0 k"
  by (induction items rule: rev_induct) auto

lemma score_range_Id:
  "x \<in> set (RemoveScores (score_range lo hi xs)) \<longleftrightarrow>
     (\<exists>e \<in> set xs. Id e = x \<and> le64 lo (Score e) \<and> le64 (Score e) hi)"
  by (auto simp: RemoveScores_def score_range_def)

lemma IsHidden_after_refresh:
  assumes "db1 HiddenItemsV2 = Inr xs1"
      and "hc = fst (HiddenItemsCache_sync (store_client db1) r hc0)"
      and "db2 HiddenItemsV2 = Inr xs2"
  shows "IsHidden (store_client db2) now hc members =
     (Some (map (\<lambda>t. (\<exists>e \<in> set xs1. Id e = t \<and> le64 (Score e) (float64_of_Unix r)) \<or>
                      (\<exists>e \<in> set xs2. Id e = t \<and> le64 (float64_of_Unix r) (Score e) \<and>
                                        le64 (Score e) (float64_of_Unix now))) members), None)"
proof -
  have hc: "hc = hc0\<lparr>hiddenItems := set (RemoveScores (score_range NegInf (float64_of_Unix r) xs1)),
                     updateTime := r\<rparr>"
    using assms(1,2) by (simp add: HiddenItemsCache_sync_def store_client_def)
  show ?thesis
    using assms(3) by (simp add: IsHidden_def store_client_def hc score_range_Id)
qed

text \<open>
  C1. The last refresh ran at time \<open>r\<close> and succeeded, and the store answers the delta
  query of a call at time \<open>now\<close>. Then \<^verbatim>\<open>IsHidden\<close> of an item answers true when the
  collection held the item at the refresh with a score up to \<open>r\<close> (the snapshot holds it),
  true when the collection holds it at the call with a score from \<open>r\<close> to \<open>now\<close> (the
  delta query returns it), and false when neither is so. For an item stamped with the
  second \<open>T\<close> at which it became hidden (wherever the collection holds it, its score is
  \<open>T\<close>, and from \<open>T\<close> on the collection holds it): when the refresh ran at \<open>T - 5\<close>, a
  call at \<open>T\<close> or later answers true and a call before \<open>T\<close> answers false; and for any
  refresh time, a call not before the refresh answers whether \<open>T \<le> now\<close>.
\<close>

theorem IsHidden_across_refresh:
  assumes refresh: "db1 HiddenItemsV2 = Inr xs1"
      and snapshot: "hc = fst (HiddenItemsCache_sync (store_client db1) r hc0)"
      and call: "db2 HiddenItemsV2 = Inr xs2"
  shows "((\<exists>e \<in> set xs1. Id e = item \<and> le64 (Score e) (float64_of_Unix r)) \<longrightarrow>
            item \<in> hiddenItems hc \<and>
            IsHidden (store_client db2) now hc [item] = (Some [True], None)) \<and>
         ((\<exists>e \<in> set xs2. Id e = item \<and> le64 (float64_of_Unix r) (Score e) \<and>
                           le64 (Score e) (float64_of_Unix now)) \<longrightarrow>
            IsHidden (store_client db2) now hc [item] = (Some [True], None)) \<and>
         (\<not> (\<exists>e \<in> set xs1. Id e = item \<and> le64 (Score e) (float64_of_Unix r)) \<and>
          \<not> (\<exists>e \<in> set xs2. Id e = item \<and> le64 (float64_of_Unix r) (Score e) \<and>
                             le64 (Score e) (float64_of_Unix now)) \<longrightarrow>
            IsHidden (store_client db2) now hc [item] = (Some [False], None)) \<and>
         ((\<forall>e \<in> set xs1. Id e = item \<longrightarrow> Score e = float64_of_Unix T) \<and>
          (\<forall>e \<in> set xs2. Id e = item \<longrightarrow> Score e = float64_of_Unix T) \<and>
          (T \<le> now \<longrightarrow> (\<exists>e \<in> set xs2. Id e = item)) \<and> r = T - 5 \<longrightarrow>
            (T \<le> now \<longrightarrow> IsHidden (store_client db2) now hc [item] = (Some [True], None)) \<and>
            (now < T \<longrightarrow> IsHidden (store_client db2) now hc [item] = (Some [False], None))) \<and>
         ((\<forall>e \<in> set xs1. Id e = item \<longrightarrow> Score e = float64_of_Unix T) \<and>
          (\<forall>e \<in> set xs2. Id e = item \<longrightarrow> Score e = float64_of_Unix T) \<and>
          (T \<le> r \<longrightarrow> (\<exists>e \<in> set xs1. Id e = item)) \<and>
          (T \<le> now \<longrightarrow> (\<exists>e \<in> set xs2. Id e = item)) \<and> r \<le> now \<longrightarrow>
            IsHidden (store_client db2) now hc [item] = (Some [T \<le> now], None))"
proof -
  let ?snap = "\<exists>e \<in> set xs1. Id e = item \<and> le64 (Score e) (float64_of_Unix r)"
  let ?delta = "\<exists>e \<in> set xs2. Id e = item \<and> le64 (float64_of_Unix r) (Score e) \<and>
                           le64 (Score e) (float64_of_Unix now)"
  have hc: "hiddenItems hc = set (RemoveScores (score_range NegInf (float64_of_Unix r) xs1))"
    using refresh snapshot by (simp add: HiddenItemsCache_sync_def store_client_def)
  have mem: "item \<in> hiddenItems hc \<longleftrightarrow> ?snap"
    by (simp add: hc score_range_Id)
  have res: "IsHidden (store_client db2) now hc [item] = (Some [?snap \<or> ?delta], None)"
    using IsHidden_after_refresh [of db1 xs1 hc r hc0 db2 xs2 now "[item]"] refresh snapshot call by simp
  have claim: "IsHidden (store_client db2) now hc [item] = (Some [T \<le> now], None)"
    if st: "(\<forall>e \<in> set xs1. Id e = item \<longrightarrow> Score e = float64_of_Unix T) \<and>
          (\<forall>e \<in> set xs2. Id e = item \<longrightarrow> Score e = float64_of_Unix T) \<and>
          (T \<le> now \<longrightarrow> (\<exists>e \<in> set xs2. Id e = item)) \<and> r = T - 5"
  proof -
    have a: "\<not> ?snap" using st by (auto simp: float64_of_Unix_def)
    have b: "?delta \<longleftrightarrow> T \<le> now" using st by (auto simp: float64_of_Unix_def)
    have "(?snap \<or> ?delta) \<longleftrightarrow> T \<le> now" using a b by blast
    then show ?thesis by (simp only: res)
  qed
  show ?thesis
  proof (intro conjI impI)
    assume ?snap
    then show "item \<in> hiddenItems hc" by (simp add: mem)
    from \<open>?snap\<close> show "IsHidden (store_client db2) now hc [item] = (Some [True], None)"
      by (simp add: res)
  next
    assume ?delta
    then show "IsHidden (store_client db2) now hc [item] = (Some [True], None)"
      by (simp add: res)
  next
    assume "\<not> ?snap \<and> \<not> ?delta"
    then show "IsHidden (store_client db2) now hc [item] = (Some [False], None)"
      by (simp add: res)
  next
    assume st: "(\<forall>e \<in> set xs1. Id e = item \<longrightarrow> Score e = float64_of_Unix T) \<and>
          (\<forall>e \<in> set xs2. Id e = item \<longrightarrow> Score e = float64_of_Unix T) \<and>
          (T \<le> now \<longrightarrow> (\<exists>e \<in> set xs2. Id e = item)) \<and> r = T - 5"
    assume "T \<le> now"
    then show "IsHidden (store_client db2) now hc [item] = (Some [True], None)"
      using claim [OF st] by simp
  next
    assume st: "(\<forall>e \<in> set xs1. Id e = item \<longrightarrow> Score e = float64_of_Unix T) \<and>
          (\<forall>e \<in> set xs2. Id e = item \<longrightarrow> Score e = float64_of_Unix T) \<and>
          (T \<le> now \<longrightarrow> (\<exists>e \<in> set xs2. Id e = item)) \<and> r = T - 5"
    assume "now < T"
    then show "IsHidden (store_client db2) now hc [item] = (Some [False], None)"
      using claim [OF st] by simp
  next
    assume st: "(\<forall>e \<in> set xs1. Id e = item \<longrightarrow> Score e = float64_of_Unix T) \<and>
          (\<forall>e \<in> set xs2. Id e = item \<longrightarrow> Score e = float64_of_Unix T) \<and>
          (T \<le> r \<longrightarrow> (\<exists>e \<in> set xs1. Id e = item)) \<and>
          (T \<le> now \<longrightarrow> (\<exists>e \<in> set xs2. Id e = item)) \<and> r \<le> now"
    have a: "?snap \<longleftrightarrow> T \<le> r" using st by (auto simp: float64_of_Unix_def)
    have b: "?delta \<longleftrightarrow> r \<le> T \<and> T \<le> now" using st by (auto simp: float64_of_Unix_def)
    have "(?snap \<or> ?delta) \<longleftrightarrow> T \<le> now" using a b st by auto
    then show "IsHidden (store_client db2) now hc [item] = (Some [T \<le> now], None)"
      by (simp only: res)
  qed
qed


theorem IsHidden_across_refresh_witness:
  "''w'' \<in> hiddenItems (fst (HiddenItemsCache_sync (store_client hidden_before) 95 NewHiddenItemsCache)) \<and>
   IsHidden (store_client hidden_after) 100
     (fst (HiddenItemsCache_sync (store_client hidden_before) 95 NewHiddenItemsCache)) [''w'']
       = (Some [True], None) \<and>
   IsHidden (store_client hidden_after) 100
     (fst (HiddenItemsCache_sync (store_client hidden_before) 95 NewHiddenItemsCache)) [''x'']
       = (Some [True], None) \<and>
   IsHidden (store_client hidden_after) 99
     (fst (HiddenItemsCache_sync (store_client hidden_before) 95 NewHiddenItemsCache)) [''x'']
       = (Some [False], None) \<and>
   IsHidden (store_client hidden_after) 130
     (fst (HiddenItemsCache_sync (store_client hidden_before) 60 NewHiddenItemsCache)) [''x'']
       = (Some [True], None) \<and>
   IsHidden (store_client hidden_after) 130
     (fst (HiddenItemsCache_sync (store_client hidden_before) 60 NewHiddenItemsCache)) [''q'']
       = (Some [False], None) \<and>
   IsHidden (store_client hidden_after) 130
     (fst (HiddenItemsCache_sync (store_client hidden_before) 60 NewHiddenItemsCache)) [''w'']
       = (Some [True], None)"
proof -
  let ?xs1 = "[\<lparr>Id = ''w'', Score = Finite 40\<rparr>]"
  let ?xs2 = "[\<lparr>Id = ''w'', Score = Finite 40\<rparr>, \<lparr>Id = ''x'', Score = Finite 100\<rparr>]"
  let ?hc95 = "fst (HiddenItemsCache_sync (store_client hidden_before) 95 NewHiddenItemsCache)"
  let ?hc60 = "fst (HiddenItemsCache_sync (store_client hidden_before) 60 NewHiddenItemsCache)"
  have r: "hidden_before HiddenItemsV2 = Inr ?xs1"
    by (simp add: hidden_before_def)
  have c: "hidden_after HiddenItemsV2 = Inr ?xs2"
    by (simp add: hidden_after_def)
  note at95 = IsHidden_across_refresh [where ?db1.0 = hidden_before and ?xs1.0 = ?xs1
      and ?hc = ?hc95 and ?r = 95 and ?hc0.0 = NewHiddenItemsCache
      and ?db2.0 = hidden_after and ?xs2.0 = ?xs2, OF r refl c]
  note at60 = IsHidden_across_refresh [where ?db1.0 = hidden_before and ?xs1.0 = ?xs1
      and ?hc = ?hc60 and ?r = 60 and ?hc0.0 = NewHiddenItemsCache
      and ?db2.0 = hidden_after and ?xs2.0 = ?xs2, OF r refl c]
  have w: "''w'' \<in> hiddenItems ?hc95 \<and>
      IsHidden (store_client hidden_after) 100 ?hc95 [''w''] = (Some [True], None)"
    using at95 [where ?item = "''w''" and ?now = 100 and ?T = 40, THEN conjunct1]
    by (simp add: float64_of_Unix_def)
  have x100: "IsHidden (store_client hidden_after) 100 ?hc95 [''x''] = (Some [True], None)"
    using at95 [where ?item = "''x''" and ?now = 100 and ?T = 100,
        THEN conjunct2, THEN conjunct2, THEN conjunct2, THEN conjunct1]
    by (simp add: float64_of_Unix_def)
  have x99: "IsHidden (store_client hidden_after) 99 ?hc95 [''x''] = (Some [False], None)"
    using at95 [where ?item = "''x''" and ?now = 99 and ?T = 100,
        THEN conjunct2, THEN conjunct2, THEN conjunct2, THEN conjunct1]
    by (simp add: float64_of_Unix_def)
  have x130: "IsHidden (store_client hidden_after) 130 ?hc60 [''x''] = (Some [True], None)"
    using at60 [where ?item = "''x''" and ?now = 130 and ?T = 100, THEN conjunct2, THEN conjunct1]
    by (simp add: float64_of_Unix_def)
  have q: "IsHidden (store_client hidden_after) 130 ?hc60 [''q''] = (Some [False], None)"
    using at60 [where ?item = "''q''" and ?now = 130 and ?T = 100,
        THEN conjunct2, THEN conjunct2, THEN conjunct1]
    by (simp add: float64_of_Unix_def)
  have w130: "IsHidden (store_client hidden_after) 130 ?hc60 [''w''] = (Some [True], None)"
    using at60 [where ?item = "''w''" and ?now = 130 and ?T = 40,
        THEN conjunct2, THEN conjunct2, THEN conjunct2, THEN conjunct2]
    by (simp add: float64_of_Unix_def)
  show ?thesis
    using w x100 x99 x130 q w130 by simp
qed

text \<open>
  C5. A lookup of a member that the snapshot does not hold returns 0.0 (the snapshot is the
  one the call leaves, which outside test mode is the one it found); the lookup has no error
  result. After a refresh whose query returned the pairs a: 5.0 and b: 3.0, in any order,
  the lookups of a, b and c return 5.0, 3.0 and 0.0.
\<close>

theorem GetSortedScore_default_zero:
  "(scores (snd (GetSortedScore cc sc member)) member = None \<longrightarrow>
      fst (GetSortedScore cc sc member) = Finite 0) \<and>
   (\<not> pc_test sc \<longrightarrow> snd (GetSortedScore cc sc member) = sc) \<and>
   (GetSorted cc PopularItems 0 (-1) = Inr items \<and>
    set items = {\<lparr>Id = ''a'', Score = Finite 5\<rparr>, \<lparr>Id = ''b'', Score = Finite 3\<rparr>} \<longrightarrow>
      (let sc' = fst (PopularItemsCache_sync cc sc)
       in fst (GetSortedScore cc sc' ''a'') = Finite 5 \<and>
          fst (GetSortedScore cc sc' ''b'') = Finite 3 \<and>
          fst (GetSortedScore cc sc' ''c'') = Finite 0))"
proof (intro conjI impI)
  assume "scores (snd (GetSortedScore cc sc member)) member = None"
  then show "fst (GetSortedScore cc sc member) = Finite 0"
    by (simp add: GetSortedScore_def Let_def)
next
  assume "\<not> pc_test sc"
  then show "snd (GetSortedScore cc sc member) = sc"
    by (simp add: GetSortedScore_def)
next
  assume h: "GetSorted cc PopularItems 0 (-1) = Inr items \<and>
    set items = {\<lparr>Id = ''a'', Score = Finite 5\<rparr>, \<lparr>Id = ''b'', Score = Finite 3\<rparr>}"
  let ?m = "foldl (\<lambda>m item. m(Id item \<mapsto> Score item)) Map.empty items"
  have a: "?m ''a'' = Some (Finite 5)"
    by (rule fold_scores_Some) (use h in auto)
  have b: "?m ''b'' = Some (Finite 3)"
    by (rule fold_scores_Some) (use h in auto)
  have c: "?m ''c'' = None"
    using fold_scores_None [of items "''c''" Map.empty] h by auto
  have s: "PopularItemsCache_sync cc sc' = (sc'\<lparr>scores := ?m\<rparr>, [])" for sc'
    using h by (simp add: PopularItemsCache_sync_def)
  show "let sc' = fst (PopularItemsCache_sync cc sc)
       in fst (GetSortedScore cc sc' ''a'') = Finite 5 \<and>
          fst (GetSortedScore cc sc' ''b'') = Finite 3 \<and>
          fst (GetSortedScore cc sc' ''c'') = Finite 0"
    by (simp add: GetSortedScore_def Let_def s a b c)
qed

theorem GetSortedScore_default_zero_witness:
  "scores (snd (GetSortedScore (store_client popular_store) NewPopularItemsCache ''c'')) ''c'' = None \<and>
   fst (GetSortedScore (store_client popular_store) NewPopularItemsCache ''c'') = Finite 0 \<and>
   GetSorted (store_client popular_store) PopularItems 0 (-1) =
      Inr [\<lparr>Id = ''b'', Score = Finite 3\<rparr>, \<lparr>Id = ''a'', Score = Finite 5\<rparr>] \<and>
   fst (GetSortedScore (store_client popular_store)
          (fst (PopularItemsCache_sync (store_client popular_store) NewPopularItemsCache))
          ''a'') = Finite 5"
  using GetSortedScore_default_zero [of "store_client popular_store" NewPopularItemsCache
      "''c''" "[\<lparr>Id = ''b'', Score = Finite 3\<rparr>, \<lparr>Id = ''a'', Score = Finite 5\<rparr>]"]
  by (simp add: NewPopularItemsCache_def store_client_def popular_store_def rank_range_def Let_def GetSortedScore_def insert_commute)

text \<open>
  C6. \<^verbatim>\<open>IsHidden\<close> returns an error exactly when its delta query fails; then the error is
  the query's error, traced, and the slice is nil. When it returns no error it returns one
  boolean for each member.
\<close>

theorem IsHidden_error_iff_query_fails:
  "(snd (IsHidden cc now hc members) \<noteq> None \<longleftrightarrow>
      isl (GetSortedByScore cc HiddenItemsV2 (float64_of_Unix (updateTime hc)) (float64_of_Unix now))) \<and>
   (GetSortedByScore cc HiddenItemsV2 (float64_of_Unix (updateTime hc)) (float64_of_Unix now) = Inl err \<longrightarrow>
      IsHidden cc now hc members = (None, Some (Trace err))) \<and>
   (snd (IsHidden cc now hc members) = None \<longrightarrow>
      (\<exists>bs. fst (IsHidden cc now hc members) = Some bs \<and> length bs = length members))"
  by (simp add: IsHidden_def split: sum.splits)

theorem IsHidden_error_iff_query_fails_witness:
  "GetSortedByScore (store_client down_store) HiddenItemsV2 (float64_of_Unix 0) (float64_of_Unix 7)
      = Inl (OtherError ''connection refused'') \<and>
   IsHidden (store_client down_store) 7 \<lparr>hiddenItems = {''x''}, updateTime = 0, hc_test = False\<rparr> [''x'']
      = (None, Some (Trace (OtherError ''connection refused'')))"
  using IsHidden_error_iff_query_fails [of "store_client down_store" 7
      "\<lparr>hiddenItems = {''x''}, updateTime = 0, hc_test = False\<rparr>" "[''x'']" "OtherError ''connection refused''"]
  by (simp add: store_client_def down_store_def)

text \<open>
  C7. When the query of a refresh fails, either cache is returned as it was (for the
  hidden-item cache the set and the time of the snapshot with it); nothing is logged when
  the error is of the NotAssigned kind, and one error line otherwise.
\<close>

theorem refresh_failure_keeps_cache:
  "(GetSorted cc PopularItems 0 (-1) = Inl err \<longrightarrow>
      PopularItemsCache_sync cc sc =
        (sc, if IsNotAssigned err then [] else [CacheLog Error ''failed to get popular items''])) \<and>
   (GetSortedByScore cc HiddenItemsV2 NegInf (float64_of_Unix ts) = Inl err \<longrightarrow>
      HiddenItemsCache_sync cc ts hc =
        (hc, if IsNotAssigned err then [] else [CacheLog Error ''failed to load hidden items'']))"
  by (simp add: PopularItemsCache_sync_def HiddenItemsCache_sync_def del: IsNotAssigned.simps)

theorem refresh_failure_keeps_cache_witness:
  "GetSorted (store_client unpopulated_store) PopularItems 0 (-1) = Inl (NotAssigned ''sorted set'') \<and>
   PopularItemsCache_sync (store_client unpopulated_store) \<lparr>scores = [''a'' \<mapsto> Finite 5], pc_test = False\<rparr>
     = (\<lparr>scores = [''a'' \<mapsto> Finite 5], pc_test = False\<rparr>, []) \<and>
   GetSortedByScore (store_client unpopulated_store) HiddenItemsV2 NegInf (float64_of_Unix 9)
     = Inl (NotAssigned ''sorted set'') \<and>
   HiddenItemsCache_sync (store_client unpopulated_store) 9 \<lparr>hiddenItems = {''x''}, updateTime = 4, hc_test = False\<rparr>
     = (\<lparr>hiddenItems = {''x''}, updateTime = 4, hc_test = False\<rparr>, [])"
  using refresh_failure_keeps_cache [of "store_client unpopulated_store" "NotAssigned ''sorted set''"
      "\<lparr>scores = [''a'' \<mapsto> Finite 5], pc_test = False\<rparr>" 9
      "\<lparr>hiddenItems = {''x''}, updateTime = 4, hc_test = False\<rparr>"]
  by (simp add: store_client_def unpopulated_store_def)

section \<open>The sync loop\<close>

lemma requests_simps:
  "requests [] = []"
  "requests (Rpc r # ev) = r # requests ev"
  "requests (Log lv m # ev) = requests ev"
  "requests (OpenData a # ev) = requests ev"
  "requests (OpenCache a # ev) = requests ev"
  "requests (Sleep d # ev) = requests ev"
  "requests (xs @ ys) = requests xs @ requests ys"
  by (simp_all add: requests_def)

lemma sleeps_simps:
  "sleeps [] = []"
  "sleeps (Rpc r # ev) = sleeps ev"
  "sleeps (Log lv m # ev) = sleeps ev"
  "sleeps (OpenData a # ev) = sleeps ev"
  "sleeps (OpenCache a # ev) = sleeps ev"
  "sleeps (Sleep d # ev) = Sleep d # sleeps ev"
  "sleeps (xs @ ys) = sleeps xs @ sleeps ys"
  by (simp_all add: sleeps_def)

lemma opens_simps:
  "opens [] = []"
  "opens (Rpc r # ev) = opens ev"
  "opens (Log lv m # ev) = opens ev"
  "opens (OpenData a # ev) = OpenData a # opens ev"
  "opens (OpenCache a # ev) = OpenCache a # opens ev"
  "opens (Sleep d # ev) = opens ev"
  "opens (xs @ ys) = opens xs @ opens ys"
  by (simp_all add: opens_def)

lemma connect_cache_frame:
  "GorseConfig (fst (connect_cache env s)) = GorseConfig s"
  "testMode (fst (connect_cache env s)) = testMode s"
  "serverName (fst (connect_cache env s)) = serverName s"
  "HttpPort (fst (connect_cache env s)) = HttpPort s"
  "dataPath (fst (connect_cache env s)) = dataPath s"
  "DataClient (fst (connect_cache env s)) = DataClient s"
  by (simp_all add: connect_cache_def Let_def split_beta split: option.splits)

lemma connect_data_frame:
  "GorseConfig (fst (connect_data env s)) = GorseConfig s"
  "testMode (fst (connect_data env s)) = testMode s"
  "serverName (fst (connect_data env s)) = serverName s"
  "HttpPort (fst (connect_data env s)) = HttpPort s"
  by (simp_all add: connect_data_def Let_def split_beta connect_cache_frame split: option.splits)

lemma tick_frame:
  "testMode (fst (tick U env s)) = testMode s"
  "serverName (fst (tick U env s)) = serverName s"
  "HttpPort (fst (tick U env s)) = HttpPort s"
  by (simp_all add: tick_def Let_def split_beta connect_data_frame split: option.splits sum.splits)

lemma connect_cache_events:
  "requests (snd (connect_cache env s)) = []"
  "sleeps (snd (connect_cache env s)) = []"
  by (simp_all add: connect_cache_def Let_def split_beta requests_simps sleeps_simps split: option.splits)

lemma connect_data_events:
  "requests (snd (connect_data env s)) = []"
  "sleeps (snd (connect_data env s)) = []"
  by (simp_all add: connect_data_def Let_def split_beta requests_simps sleeps_simps
      connect_cache_events split: option.splits)

lemma tick_events:
  "requests (snd (tick U env s)) =
     [GetMeta \<lparr>NodeType = ServerNode, NodeName = serverName s, NodeHttpPort = HttpPort s\<rparr>]"
  "sleeps (snd (tick U env s)) = []"
  "hd (snd (tick U env s)) =
     Rpc (GetMeta \<lparr>NodeType = ServerNode, NodeName = serverName s, NodeHttpPort = HttpPort s\<rparr>)"
  by (simp_all add: tick_def Let_def split_beta requests_simps sleeps_simps
      connect_data_events split: option.splits sum.splits)

lemma Sync_loop_requests:
  "set (requests (snd (snd (Sync_loop U envs s)))) \<subseteq>
     {GetMeta \<lparr>NodeType = ServerNode, NodeName = serverName s, NodeHttpPort = HttpPort s\<rparr>}"
proof (induction envs arbitrary: s)
  case Nil
  show ?case by (simp add: requests_simps)
next
  case (Cons env envs)
  show ?case
    using Cons [of "fst (tick U env s)"]
    by (auto simp: Let_def split_beta requests_simps tick_events tick_frame)
qed

lemma connect_cache_opens:
  "opens (snd (connect_cache env s)) =
     (if cachePath s \<noteq> CacheStore (GorseConfig s) then [OpenCache (CacheStore (GorseConfig s))] else [])"
  by (simp add: connect_cache_def Let_def split_beta opens_simps split: option.splits)

lemma connect_data_opens:
  "opens (snd (connect_data env s)) =
     (if dataPath s \<noteq> DataStore (GorseConfig s) then [OpenData (DataStore (GorseConfig s))] else []) @
     (if cachePath s \<noteq> CacheStore (GorseConfig s) \<and>
         (dataPath s = DataStore (GorseConfig s) \<or> snd (data_Open env (DataStore (GorseConfig s))) = None)
      then [OpenCache (CacheStore (GorseConfig s))] else [])"
  by (simp add: connect_data_def Let_def split_beta opens_simps connect_cache_opens split: option.splits)

lemma connect_cache_same:
  "cachePath s = CacheStore (GorseConfig s) \<Longrightarrow> connect_cache env s = (s, [])"
  by (simp add: connect_cache_def)

lemma connect_data_same:
  "dataPath s = DataStore (GorseConfig s) \<Longrightarrow> cachePath s = CacheStore (GorseConfig s) \<Longrightarrow>
   connect_data env s = (s, [])"
  by (simp add: connect_data_def connect_cache_same)

lemma connect_cache_paths:
  "cachePath s = CacheStore (GorseConfig s) \<or> snd (cache_Open env (CacheStore (GorseConfig s))) = None \<Longrightarrow>
   cachePath (fst (connect_cache env s)) = CacheStore (GorseConfig s)"
  by (auto simp: connect_cache_def Let_def split_beta split: option.splits)

lemma connect_data_paths:
  assumes "dataPath s = DataStore (GorseConfig s) \<or> snd (data_Open env (DataStore (GorseConfig s))) = None"
      and "cachePath s = CacheStore (GorseConfig s) \<or> snd (cache_Open env (CacheStore (GorseConfig s))) = None"
  shows "dataPath (fst (connect_data env s)) = DataStore (GorseConfig s) \<and>
         cachePath (fst (connect_data env s)) = CacheStore (GorseConfig s)"
  using assms
  by (auto simp: connect_data_def Let_def split_beta connect_cache_frame connect_cache_paths
      split: option.splits)

text \<open>
  C2 as amended. The loop sends no registration request. Every request it sends is
  \<^verbatim>\<open>GetMeta\<close> carrying the node type \<^verbatim>\<open>ServerNode\<close>, the server's name and its HTTP port,
  and once the loop has made a pass, the first thing it did after logging its start is that
  request.
\<close>

theorem Sync_requests_are_GetMeta:
  "set (requests (snd (snd (Sync U envs s)))) \<subseteq>
     {GetMeta \<lparr>NodeType = ServerNode, NodeName = serverName s, NodeHttpPort = HttpPort s\<rparr>} \<and>
   (envs \<noteq> [] \<longrightarrow>
      take 2 (snd (snd (Sync U envs s))) =
        [Log Info ''start meta sync'',
         Rpc (GetMeta \<lparr>NodeType = ServerNode, NodeName = serverName s, NodeHttpPort = HttpPort s\<rparr>)])"
proof
  show "set (requests (snd (snd (Sync U envs s)))) \<subseteq>
     {GetMeta \<lparr>NodeType = ServerNode, NodeName = serverName s, NodeHttpPort = HttpPort s\<rparr>}"
    using Sync_loop_requests [of U envs s]
    by (simp add: Sync_def split_beta requests_simps)
next
  show "envs \<noteq> [] \<longrightarrow>
      take 2 (snd (snd (Sync U envs s))) =
        [Log Info ''start meta sync'',
         Rpc (GetMeta \<lparr>NodeType = ServerNode, NodeName = serverName s, NodeHttpPort = HttpPort s\<rparr>)]"
  proof
    assume "envs \<noteq> []"
    then obtain env rest where e: "envs = env # rest" by (cases envs) auto
    obtain x xs where t: "snd (tick U env s) = x # xs"
      using tick_events(1) [of U env s] by (cases "snd (tick U env s)") (auto simp: requests_simps)
    have x: "x = Rpc (GetMeta \<lparr>NodeType = ServerNode, NodeName = serverName s, NodeHttpPort = HttpPort s\<rparr>)"
      using tick_events(3) [of U env s] t by simp
    show "take 2 (snd (snd (Sync U envs s))) =
        [Log Info ''start meta sync'',
         Rpc (GetMeta \<lparr>NodeType = ServerNode, NodeName = serverName s, NodeHttpPort = HttpPort s\<rparr>)]"
      by (simp add: e Sync_def Let_def split_beta t x numeral_2_eq_2)
  qed
qed

theorem Sync_requests_are_GetMeta_witness:
  "[env_up blob_a, env_master_down] \<noteq> [] \<and>
   take 2 (snd (snd (Sync sample_Unmarshal [env_up blob_a, env_master_down] server0))) =
     [Log Info ''start meta sync'',
      Rpc (GetMeta \<lparr>NodeType = ServerNode, NodeName = ''node-1'', NodeHttpPort = 8087\<rparr>)]"
  using Sync_requests_are_GetMeta [of sample_Unmarshal "[env_up blob_a, env_master_down]" server0]
  by (simp add: server0_def NewServer_def)

text \<open>
  C2 as stated fails: in a run of two passes, the first against a coordinator that
  answers and the second against one that does not, the server sends two \<^verbatim>\<open>GetMeta\<close>
  requests and no \<^verbatim>\<open>DescribeNode\<close> request, and only the start log precedes the first
  meta pull.
\<close>

theorem Sync_sends_no_DescribeNode:
  "snd (snd (Sync sample_Unmarshal [env_up blob_a, env_master_down] server0)) =
     [Log Info ''start meta sync'',
      Rpc (GetMeta \<lparr>NodeType = ServerNode, NodeName = ''node-1'', NodeHttpPort = 8087\<rparr>),
      Log Info ''connect data store'', OpenData ''mysql://a'',
      Log Info ''connect cache store'', OpenCache ''redis://a'',
      Sleep 10000000000,
      Rpc (GetMeta \<lparr>NodeType = ServerNode, NodeName = ''node-1'', NodeHttpPort = 8087\<rparr>),
      Log Error ''failed to get meta'',
      Sleep 10000000000] \<and>
   DescribeNode \<lparr>NodeType = ServerNode, NodeName = ''node-1'', NodeHttpPort = 8087\<rparr>
     \<notin> set (requests (snd (snd (Sync sample_Unmarshal [env_up blob_a, env_master_down] server0))))"
proof -
  have t: "snd (snd (Sync sample_Unmarshal [env_up blob_a, env_master_down] server0)) =
     [Log Info ''start meta sync'',
      Rpc (GetMeta \<lparr>NodeType = ServerNode, NodeName = ''node-1'', NodeHttpPort = 8087\<rparr>),
      Log Info ''connect data store'', OpenData ''mysql://a'',
      Log Info ''connect cache store'', OpenCache ''redis://a'',
      Sleep 10000000000,
      Rpc (GetMeta \<lparr>NodeType = ServerNode, NodeName = ''node-1'', NodeHttpPort = 8087\<rparr>),
      Log Error ''failed to get meta'',
      Sleep 10000000000]"
    by (simp add: Sync_def tick_def connect_data_def connect_cache_def env_up_def env_master_down_def
        sample_Unmarshal_def server0_def NewServer_def default_config_def)
  show ?thesis
    by (simp add: t requests_def)
qed

text \<open>
  C9. In test mode the loop makes one pass and returns, whatever the coordinator, the
  decoder and the two opens answer: the result is the state and the events of that pass,
  with one meta pull and no sleep.
\<close>

theorem Sync_test_mode_one_pass:
  "testMode s \<longrightarrow>
     Sync U (env # envs) s =
       (Returned, fst (tick U env s), Log Info ''start meta sync'' # snd (tick U env s)) \<and>
     sleeps (snd (snd (Sync U (env # envs) s))) = [] \<and>
     requests (snd (snd (Sync U (env # envs) s))) =
       [GetMeta \<lparr>NodeType = ServerNode, NodeName = serverName s, NodeHttpPort = HttpPort s\<rparr>]"
  by (simp add: Sync_def Let_def split_beta tick_frame tick_events sleeps_simps requests_simps)

theorem Sync_test_mode_one_pass_witness:
  "testMode (server0\<lparr>testMode := True\<rparr>) \<and>
   Sync sample_Unmarshal [env_data_down blob_a, env_up blob_a] (server0\<lparr>testMode := True\<rparr>) =
     (Returned,
      server0\<lparr>testMode := True, DataClient := nil,
        GorseConfig := default_config\<lparr>DataStore := ''mysql://a'', CacheStore := ''redis://a''\<rparr>\<rparr>,
      [Log Info ''start meta sync'',
       Rpc (GetMeta \<lparr>NodeType = ServerNode, NodeName = ''node-1'', NodeHttpPort = 8087\<rparr>),
       Log Info ''connect data store'', OpenData ''mysql://a'',
       Log Error ''failed to connect data store''])"
  using Sync_test_mode_one_pass [of "server0\<lparr>testMode := True\<rparr>" sample_Unmarshal
      "env_data_down blob_a" "[env_up blob_a]"]
  by (simp add: tick_def connect_data_def env_data_down_def server0_def NewServer_def
      sample_Unmarshal_def default_config_def)

lemma tick_meta_failure:
  "GetMeta_reply env = Inl err \<Longrightarrow>
   tick U env s =
     (s, [Rpc (GetMeta \<lparr>NodeType = ServerNode, NodeName = serverName s, NodeHttpPort = HttpPort s\<rparr>),
          Log Error ''failed to get meta''])"
  by (simp add: tick_def)

lemma tick_on_parse_failure:
  "GetMeta_reply env = Inr meta \<Longrightarrow> snd (U (Config meta) (GorseConfig s)) \<noteq> None \<Longrightarrow>
   tick U env s =
     (s\<lparr>GorseConfig := fst (U (Config meta) (GorseConfig s))\<rparr>,
      [Rpc (GetMeta \<lparr>NodeType = ServerNode, NodeName = serverName s, NodeHttpPort = HttpPort s\<rparr>),
       Log Error ''failed to parse master config''])"
  by (auto simp: tick_def Let_def split_beta split: option.splits)

lemma tick_parsed:
  "GetMeta_reply env = Inr meta \<Longrightarrow> U (Config meta) (GorseConfig s) = (cfg, None) \<Longrightarrow>
   tick U env s =
     (fst (connect_data env (s\<lparr>GorseConfig := cfg\<rparr>)),
      Rpc (GetMeta \<lparr>NodeType = ServerNode, NodeName = serverName s, NodeHttpPort = HttpPort s\<rparr>) #
      snd (connect_data env (s\<lparr>GorseConfig := cfg\<rparr>)))"
  by (simp add: tick_def Let_def split_beta)

lemma tick_config:
  "GetMeta_reply env = Inr meta \<Longrightarrow>
   GorseConfig (fst (tick U env s)) = fst (U (Config meta) (GorseConfig s))"
  by (simp add: tick_def Let_def split_beta connect_data_frame split: option.splits)

lemma opens_of_tick:
  assumes "GetMeta_reply env = Inr meta" and "U (Config meta) (GorseConfig s) = (cfg, None)"
  shows "opens (snd (tick U env s)) =
     (if dataPath s \<noteq> DataStore cfg then [OpenData (DataStore cfg)] else []) @
     (if cachePath s \<noteq> CacheStore cfg \<and>
         (dataPath s = DataStore cfg \<or> snd (data_Open env (DataStore cfg)) = None)
      then [OpenCache (CacheStore cfg)] else [])"
  by (simp add: tick_parsed [of env meta U s cfg, OF assms] opens_simps connect_data_opens)

lemma tick_paths:
  assumes "GetMeta_reply env = Inr meta" and "U (Config meta) (GorseConfig s) = (cfg, None)"
      and "dataPath s = DataStore cfg \<or> snd (data_Open env (DataStore cfg)) = None"
      and "cachePath s = CacheStore cfg \<or> snd (cache_Open env (CacheStore cfg)) = None"
  shows "dataPath (fst (tick U env s)) = DataStore cfg \<and> cachePath (fst (tick U env s)) = CacheStore cfg"
  using connect_data_paths [of "s\<lparr>GorseConfig := cfg\<rparr>" env] assms(3,4)
  by (simp add: tick_parsed [of env meta U s cfg, OF assms(1,2)])

text \<open>
  C3 as amended. A pass whose meta pull fails leaves the server, its configuration
  included, as it was. A pass whose meta pull succeeds decodes the blob into the
  configuration the server holds: afterwards the server holds what the decoder left there,
  whether or not the decoder reported an error, and after a reported error nothing else of
  the server has changed. Outside test mode, after either failure the loop sleeps for the
  \<^verbatim>\<open>MetaTimeout\<close> of the configuration it then holds and goes on with the next pass.
\<close>

theorem tick_decodes_in_place:
  "(GetMeta_reply env = Inl err \<longrightarrow>
      fst (tick U env s) = s \<and>
      (\<not> testMode s \<longrightarrow>
         Sync_loop U (env # envs) s =
           (case Sync_loop U envs s of
              (st, s2, ev2) \<Rightarrow>
                (st, s2, snd (tick U env s) @ Sleep (MetaTimeout (GorseConfig s)) # ev2)))) \<and>
   (GetMeta_reply env = Inr meta \<longrightarrow>
      GorseConfig (fst (tick U env s)) = fst (U (Config meta) (GorseConfig s))) \<and>
   (GetMeta_reply env = Inr meta \<and> snd (U (Config meta) (GorseConfig s)) \<noteq> None \<longrightarrow>
      fst (tick U env s) = s\<lparr>GorseConfig := fst (U (Config meta) (GorseConfig s))\<rparr> \<and>
      (\<not> testMode s \<longrightarrow>
         Sync_loop U (env # envs) s =
           (case Sync_loop U envs (s\<lparr>GorseConfig := fst (U (Config meta) (GorseConfig s))\<rparr>) of
              (st, s2, ev2) \<Rightarrow>
                (st, s2, snd (tick U env s) @
                   Sleep (MetaTimeout (fst (U (Config meta) (GorseConfig s)))) # ev2))))"
proof (intro conjI impI)
  assume m: "GetMeta_reply env = Inl err"
  show "fst (tick U env s) = s"
    by (simp add: tick_meta_failure [OF m])
  assume "\<not> testMode s"
  then show "Sync_loop U (env # envs) s =
      (case Sync_loop U envs s of
         (st, s2, ev2) \<Rightarrow> (st, s2, snd (tick U env s) @ Sleep (MetaTimeout (GorseConfig s)) # ev2))"
    by (simp add: tick_meta_failure [OF m] split_beta)
next
  assume "GetMeta_reply env = Inr meta"
  then show "GorseConfig (fst (tick U env s)) = fst (U (Config meta) (GorseConfig s))"
    by (rule tick_config)
next
  assume h: "GetMeta_reply env = Inr meta \<and> snd (U (Config meta) (GorseConfig s)) \<noteq> None"
  then have t: "tick U env s =
     (s\<lparr>GorseConfig := fst (U (Config meta) (GorseConfig s))\<rparr>,
      [Rpc (GetMeta \<lparr>NodeType = ServerNode, NodeName = serverName s, NodeHttpPort = HttpPort s\<rparr>),
       Log Error ''failed to parse master config''])"
    using tick_on_parse_failure [of env meta U s] by blast
  show "fst (tick U env s) = s\<lparr>GorseConfig := fst (U (Config meta) (GorseConfig s))\<rparr>"
    by (simp add: t)
  assume "\<not> testMode s"
  then show "Sync_loop U (env # envs) s =
      (case Sync_loop U envs (s\<lparr>GorseConfig := fst (U (Config meta) (GorseConfig s))\<rparr>) of
         (st, s2, ev2) \<Rightarrow>
           (st, s2, snd (tick U env s) @
              Sleep (MetaTimeout (fst (U (Config meta) (GorseConfig s)))) # ev2))"
    by (simp add: t split_beta)
qed

theorem tick_decodes_in_place_witness:
  "GetMeta_reply env_master_down = Inl (OtherError ''rpc error: unavailable'') \<and>
   fst (tick sample_Unmarshal env_master_down server0) = server0 \<and>
   \<not> testMode server0 \<and>
   Sync_loop sample_Unmarshal [env_master_down] server0 =
     (Running, server0,
      [Rpc (GetMeta \<lparr>NodeType = ServerNode, NodeName = ''node-1'', NodeHttpPort = 8087\<rparr>),
       Log Error ''failed to get meta'', Sleep 10000000000]) \<and>
   GetMeta_reply (env_up blob_bad) = Inr \<lparr>Config = blob_bad\<rparr> \<and>
   snd (sample_Unmarshal blob_bad (GorseConfig server0)) \<noteq> None \<and>
   fst (tick sample_Unmarshal (env_up blob_bad) server0) =
     server0\<lparr>GorseConfig := default_config\<lparr>DataStore := ''mysql://b''\<rparr>\<rparr>"
proof -
  have a: "fst (tick sample_Unmarshal env_master_down server0) = server0 \<and>
      Sync_loop sample_Unmarshal [env_master_down] server0 =
        (Running, server0,
         snd (tick sample_Unmarshal env_master_down server0) @
           [Sleep (MetaTimeout (GorseConfig server0))])"
    using tick_decodes_in_place [of env_master_down "OtherError ''rpc error: unavailable''"
        sample_Unmarshal server0 "[]" "\<lparr>Config = blob_bad\<rparr>", THEN conjunct1]
    by (simp add: env_master_down_def server0_def NewServer_def)
  have t: "snd (tick sample_Unmarshal env_master_down server0) =
      [Rpc (GetMeta \<lparr>NodeType = ServerNode, NodeName = ''node-1'', NodeHttpPort = 8087\<rparr>),
       Log Error ''failed to get meta'']"
    by (simp add: tick_def env_master_down_def server0_def NewServer_def)
  have d: "MetaTimeout (GorseConfig server0) = 10000000000" "\<not> testMode server0"
    by (simp_all add: server0_def NewServer_def default_config_def)
  have ne: "blob_bad \<noteq> blob_a" "blob_bad \<noteq> blob_b"
    by (simp_all add: blob_bad_def blob_a_def blob_b_def)
  have b: "fst (tick sample_Unmarshal (env_up blob_bad) server0) =
     server0\<lparr>GorseConfig := default_config\<lparr>DataStore := ''mysql://b''\<rparr>\<rparr>"
    using tick_decodes_in_place [of "env_up blob_bad" "OtherError []"
        sample_Unmarshal server0 "[]" "\<lparr>Config = blob_bad\<rparr>"]
    by (simp add: env_up_def sample_Unmarshal_def ne server0_def NewServer_def)
  have g: "GetMeta_reply env_master_down = Inl (OtherError ''rpc error: unavailable'')"
    "GetMeta_reply (env_up blob_bad) = Inr \<lparr>Config = blob_bad\<rparr>"
    "snd (sample_Unmarshal blob_bad (GorseConfig server0)) \<noteq> None"
    by (simp_all add: env_master_down_def env_up_def sample_Unmarshal_def ne)
  show ?thesis
    using a b g by (simp add: t d)
qed

text \<open>
  C3 as stated fails. A blob with a string where a duration belongs makes the decoder
  report an error after it has stored the data store address, and the pass keeps that
  address: the failed pass has changed the configuration. And a pass that succeeds on a
  blob naming only the data store keeps the cache store address of the configuration held
  before: the configuration is merged into, not replaced.
\<close>

theorem tick_parse_failure_changes_config:
  "snd (sample_Unmarshal blob_bad (GorseConfig server0)) \<noteq> None \<and>
   DataStore (GorseConfig server0) = [] \<and>
   DataStore (GorseConfig (fst (tick sample_Unmarshal (env_up blob_bad) server0))) = ''mysql://b'' \<and>
   snd (sample_Unmarshal blob_b (GorseConfig (fst (tick sample_Unmarshal (env_up blob_a) server0)))) = None \<and>
   GorseConfig (fst (tick sample_Unmarshal (env_up blob_b)
       (fst (tick sample_Unmarshal (env_up blob_a) server0)))) =
     default_config\<lparr>DataStore := ''mysql://b'', CacheStore := ''redis://a''\<rparr>"
proof -
  have ne: "blob_bad \<noteq> blob_a" "blob_bad \<noteq> blob_b" "blob_b \<noteq> blob_a"
    by (simp_all add: blob_bad_def blob_a_def blob_b_def)
  have m: "GetMeta_reply (env_up blob) = Inr \<lparr>Config = blob\<rparr>" for blob
    by (simp add: env_up_def)
  show ?thesis
    by (simp add: tick_config [OF m] sample_Unmarshal_def ne server0_def NewServer_def default_config_def)
qed

text \<open>
  C4 as amended. In a pass that has pulled and decoded a configuration, the data store is
  opened exactly when its configured address differs from \<^verbatim>\<open>dataPath\<close>, the address of
  the last data open that succeeded (empty at the start); the cache store is opened exactly
  when its configured address differs from \<^verbatim>\<open>cachePath\<close> and the data step of the same
  pass has not failed. A pass that fails to pull or decode opens nothing. When the opens
  of a pass have not failed and the next pass decodes the same two addresses, the next pass
  opens nothing and keeps both handles.
\<close>

theorem tick_opens_iff_address_differs:
  "(GetMeta_reply env = Inr meta \<and> U (Config meta) (GorseConfig s) = (cfg, None) \<longrightarrow>
      opens (snd (tick U env s)) =
        (if dataPath s \<noteq> DataStore cfg then [OpenData (DataStore cfg)] else []) @
        (if cachePath s \<noteq> CacheStore cfg \<and>
            (dataPath s = DataStore cfg \<or> snd (data_Open env (DataStore cfg)) = None)
         then [OpenCache (CacheStore cfg)] else [])) \<and>
   (isl (GetMeta_reply env) \<or>
    (GetMeta_reply env = Inr meta \<and> snd (U (Config meta) (GorseConfig s)) \<noteq> None) \<longrightarrow>
      opens (snd (tick U env s)) = []) \<and>
   (GetMeta_reply env = Inr meta \<and> U (Config meta) (GorseConfig s) = (cfg, None) \<and>
    (dataPath s = DataStore cfg \<or> snd (data_Open env (DataStore cfg)) = None) \<and>
    (cachePath s = CacheStore cfg \<or> snd (cache_Open env (CacheStore cfg)) = None) \<and>
    GetMeta_reply env2 = Inr meta2 \<and> U (Config meta2) cfg = (cfg2, None) \<and>
    DataStore cfg2 = DataStore cfg \<and> CacheStore cfg2 = CacheStore cfg \<longrightarrow>
      opens (snd (tick U env2 (fst (tick U env s)))) = [] \<and>
      DataClient (fst (tick U env2 (fst (tick U env s)))) = DataClient (fst (tick U env s)) \<and>
      CacheClient (fst (tick U env2 (fst (tick U env s)))) = CacheClient (fst (tick U env s)))"
proof (intro conjI impI)
  assume "GetMeta_reply env = Inr meta \<and> U (Config meta) (GorseConfig s) = (cfg, None)"
  then show "opens (snd (tick U env s)) =
        (if dataPath s \<noteq> DataStore cfg then [OpenData (DataStore cfg)] else []) @
        (if cachePath s \<noteq> CacheStore cfg \<and>
            (dataPath s = DataStore cfg \<or> snd (data_Open env (DataStore cfg)) = None)
         then [OpenCache (CacheStore cfg)] else [])"
    using opens_of_tick [of env meta U s cfg] by blast
next
  assume "isl (GetMeta_reply env) \<or>
    (GetMeta_reply env = Inr meta \<and> snd (U (Config meta) (GorseConfig s)) \<noteq> None)"
  then show "opens (snd (tick U env s)) = []"
  proof
    assume "isl (GetMeta_reply env)"
    then obtain err where "GetMeta_reply env = Inl err" by (cases "GetMeta_reply env") auto
    then show ?thesis by (simp add: tick_meta_failure opens_simps)
  next
    assume "GetMeta_reply env = Inr meta \<and> snd (U (Config meta) (GorseConfig s)) \<noteq> None"
    then show ?thesis using tick_on_parse_failure [of env meta U s] by (simp add: opens_simps)
  qed
next
  assume h: "GetMeta_reply env = Inr meta \<and> U (Config meta) (GorseConfig s) = (cfg, None) \<and>
    (dataPath s = DataStore cfg \<or> snd (data_Open env (DataStore cfg)) = None) \<and>
    (cachePath s = CacheStore cfg \<or> snd (cache_Open env (CacheStore cfg)) = None) \<and>
    GetMeta_reply env2 = Inr meta2 \<and> U (Config meta2) cfg = (cfg2, None) \<and>
    DataStore cfg2 = DataStore cfg \<and> CacheStore cfg2 = CacheStore cfg"
  let ?s1 = "fst (tick U env s)"
  have c1: "GorseConfig ?s1 = cfg"
    using h tick_config [of env meta U s] by simp
  have p1: "dataPath ?s1 = DataStore cfg \<and> cachePath ?s1 = CacheStore cfg"
    using h tick_paths [of env meta U s cfg] by blast
  have t2: "tick U env2 ?s1 =
     (fst (connect_data env2 (?s1\<lparr>GorseConfig := cfg2\<rparr>)),
      Rpc (GetMeta \<lparr>NodeType = ServerNode, NodeName = serverName ?s1, NodeHttpPort = HttpPort ?s1\<rparr>) #
      snd (connect_data env2 (?s1\<lparr>GorseConfig := cfg2\<rparr>)))"
    using h c1 tick_parsed [of env2 meta2 U ?s1 cfg2] by simp
  have same: "connect_data env2 (?s1\<lparr>GorseConfig := cfg2\<rparr>) = (?s1\<lparr>GorseConfig := cfg2\<rparr>, [])"
    using h p1 by (intro connect_data_same) simp_all
  show "opens (snd (tick U env2 ?s1)) = []"
    by (simp add: t2 same opens_simps)
  show "DataClient (fst (tick U env2 ?s1)) = DataClient ?s1"
    by (simp add: t2 same)
  show "CacheClient (fst (tick U env2 ?s1)) = CacheClient ?s1"
    by (simp add: t2 same)
qed

theorem tick_opens_iff_address_differs_witness:
  "GetMeta_reply (env_up blob_a) = Inr \<lparr>Config = blob_a\<rparr> \<and>
   sample_Unmarshal blob_a (GorseConfig server0) =
     (default_config\<lparr>DataStore := ''mysql://a'', CacheStore := ''redis://a''\<rparr>, None) \<and>
   opens (snd (tick sample_Unmarshal (env_up blob_a) server0)) =
     [OpenData ''mysql://a'', OpenCache ''redis://a''] \<and>
   opens (snd (tick sample_Unmarshal (env_up blob_a)
       (fst (tick sample_Unmarshal (env_up blob_a) server0)))) = []"
  using tick_opens_iff_address_differs [of "env_up blob_a" "\<lparr>Config = blob_a\<rparr>" sample_Unmarshal server0
      "default_config\<lparr>DataStore := ''mysql://a'', CacheStore := ''redis://a''\<rparr>"
      "env_up blob_a" "\<lparr>Config = blob_a\<rparr>"
      "default_config\<lparr>DataStore := ''mysql://a'', CacheStore := ''redis://a''\<rparr>"]
  by (simp add: env_up_def sample_Unmarshal_def server0_def NewServer_def default_config_def)

text \<open>
  C4 as stated fails. The data store cannot be opened: the pass does not open the cache
  store although its configured address differs from the one held, and the next pass,
  which pulls the same addresses, opens the data store again.
\<close>

theorem tick_reopens_after_failed_open:
  "GetMeta_reply (env_data_down blob_a) = Inr \<lparr>Config = blob_a\<rparr> \<and>
   cachePath server0 \<noteq> ''redis://a'' \<and>
   opens (snd (tick sample_Unmarshal (env_data_down blob_a) server0)) = [OpenData ''mysql://a''] \<and>
   opens (snd (tick sample_Unmarshal (env_data_down blob_a)
       (fst (tick sample_Unmarshal (env_data_down blob_a) server0)))) = [OpenData ''mysql://a'']"
  by (simp add: tick_def connect_data_def env_data_down_def sample_Unmarshal_def server0_def
      NewServer_def default_config_def opens_def)

lemma connect_data_open_fails:
  "dataPath s \<noteq> DataStore (GorseConfig s) \<Longrightarrow> data_Open env (DataStore (GorseConfig s)) = (h, Some e) \<Longrightarrow>
   fst (connect_data env s) = s\<lparr>DataClient := h\<rparr>"
  by (simp add: connect_data_def)

lemma connect_cache_open_fails:
  "cachePath s \<noteq> CacheStore (GorseConfig s) \<Longrightarrow> cache_Open env (CacheStore (GorseConfig s)) = (h, Some e) \<Longrightarrow>
   fst (connect_cache env s) = s\<lparr>CacheClient := h\<rparr>"
  by (simp add: connect_cache_def)

lemma connect_data_then_cache_fails:
  assumes "dataPath s = DataStore (GorseConfig s) \<or> snd (data_Open env (DataStore (GorseConfig s))) = None"
      and "cachePath s \<noteq> CacheStore (GorseConfig s)"
      and "cache_Open env (CacheStore (GorseConfig s)) = (h, Some e)"
  shows "cachePath (fst (connect_data env s)) = cachePath s \<and>
         CacheClient (fst (connect_data env s)) = h \<and>
         dataPath (fst (connect_data env s)) = DataStore (GorseConfig s)"
  using assms
  by (auto simp: connect_data_def connect_cache_def Let_def split_beta split: option.splits)

text \<open>
  C10. A pass has pulled and decoded a configuration, the data store address differs
  from \<^verbatim>\<open>dataPath\<close>, and the open fails: the pass ends with \<^verbatim>\<open>dataPath\<close> as it was and with
  \<^verbatim>\<open>DataClient\<close> set to what the failed open returned, and the next pass with the same
  configuration opens the data store again. The same holds for the cache store, when the
  data step of the pass has not failed.
\<close>

theorem failed_open_overwrites_handle:
  "(GetMeta_reply env = Inr meta \<and> U (Config meta) (GorseConfig s) = (cfg, None) \<and>
    dataPath s \<noteq> DataStore cfg \<and> data_Open env (DataStore cfg) = (h, Some e) \<longrightarrow>
      fst (tick U env s) = s\<lparr>GorseConfig := cfg, DataClient := h\<rparr> \<and>
      (GetMeta_reply env2 = Inr meta2 \<and> U (Config meta2) cfg = (cfg, None) \<longrightarrow>
         OpenData (DataStore cfg) \<in> set (snd (tick U env2 (fst (tick U env s)))))) \<and>
   (GetMeta_reply env = Inr meta \<and> U (Config meta) (GorseConfig s) = (cfg, None) \<and>
    (dataPath s = DataStore cfg \<or> snd (data_Open env (DataStore cfg)) = None) \<and>
    cachePath s \<noteq> CacheStore cfg \<and> cache_Open env (CacheStore cfg) = (h, Some e) \<longrightarrow>
      cachePath (fst (tick U env s)) = cachePath s \<and>
      CacheClient (fst (tick U env s)) = h \<and>
      (GetMeta_reply env2 = Inr meta2 \<and> U (Config meta2) cfg = (cfg, None) \<longrightarrow>
         OpenCache (CacheStore cfg) \<in> set (snd (tick U env2 (fst (tick U env s))))))"
proof (intro conjI impI)
  assume h: "GetMeta_reply env = Inr meta \<and> U (Config meta) (GorseConfig s) = (cfg, None) \<and>
    dataPath s \<noteq> DataStore cfg \<and> data_Open env (DataStore cfg) = (h, Some e)"
  have t: "tick U env s =
     (fst (connect_data env (s\<lparr>GorseConfig := cfg\<rparr>)),
      Rpc (GetMeta \<lparr>NodeType = ServerNode, NodeName = serverName s, NodeHttpPort = HttpPort s\<rparr>) #
      snd (connect_data env (s\<lparr>GorseConfig := cfg\<rparr>)))"
    using h tick_parsed [of env meta U s cfg] by blast
  show s1: "fst (tick U env s) = s\<lparr>GorseConfig := cfg, DataClient := h\<rparr>"
    using h connect_data_open_fails [of "s\<lparr>GorseConfig := cfg\<rparr>" env h e] by (simp add: t)
  assume h2: "GetMeta_reply env2 = Inr meta2 \<and> U (Config meta2) cfg = (cfg, None)"
  have "opens (snd (tick U env2 (s\<lparr>GorseConfig := cfg, DataClient := h\<rparr>))) =
     OpenData (DataStore cfg) #
     (if cachePath s \<noteq> CacheStore cfg \<and> snd (data_Open env2 (DataStore cfg)) = None
      then [OpenCache (CacheStore cfg)] else [])"
    using h h2 opens_of_tick [of env2 meta2 U "s\<lparr>GorseConfig := cfg, DataClient := h\<rparr>" cfg] by simp
  then have "OpenData (DataStore cfg) \<in> set (opens (snd (tick U env2 (fst (tick U env s)))))"
    by (simp add: s1)
  then show "OpenData (DataStore cfg) \<in> set (snd (tick U env2 (fst (tick U env s))))"
    by (simp add: opens_def)
next
  assume h: "GetMeta_reply env = Inr meta \<and> U (Config meta) (GorseConfig s) = (cfg, None) \<and>
    (dataPath s = DataStore cfg \<or> snd (data_Open env (DataStore cfg)) = None) \<and>
    cachePath s \<noteq> CacheStore cfg \<and> cache_Open env (CacheStore cfg) = (h, Some e)"
  let ?s1 = "fst (tick U env s)"
  have t: "tick U env s =
     (fst (connect_data env (s\<lparr>GorseConfig := cfg\<rparr>)),
      Rpc (GetMeta \<lparr>NodeType = ServerNode, NodeName = serverName s, NodeHttpPort = HttpPort s\<rparr>) #
      snd (connect_data env (s\<lparr>GorseConfig := cfg\<rparr>)))"
    using h tick_parsed [of env meta U s cfg] by blast
  have c: "cachePath ?s1 = cachePath s \<and> CacheClient ?s1 = h \<and> dataPath ?s1 = DataStore cfg"
    using h connect_data_then_cache_fails [of "s\<lparr>GorseConfig := cfg\<rparr>" env h e] by (simp add: t)
  show "cachePath ?s1 = cachePath s" using c by simp
  show "CacheClient ?s1 = h" using c by simp
  assume h2: "GetMeta_reply env2 = Inr meta2 \<and> U (Config meta2) cfg = (cfg, None)"
  have g: "GorseConfig ?s1 = cfg"
    using h tick_config [of env meta U s] by simp
  have "opens (snd (tick U env2 ?s1)) = [OpenCache (CacheStore cfg)]"
    using h h2 c g opens_of_tick [of env2 meta2 U ?s1 cfg] by simp
  then have "OpenCache (CacheStore cfg) \<in> set (opens (snd (tick U env2 ?s1)))"
    by simp
  then show "OpenCache (CacheStore cfg) \<in> set (snd (tick U env2 ?s1))"
    by (simp add: opens_def)
qed

theorem failed_open_overwrites_handle_witness:
  "GetMeta_reply (env_data_down blob_a) = Inr \<lparr>Config = blob_a\<rparr> \<and>
   dataPath server0 \<noteq> ''mysql://a'' \<and>
   data_Open (env_data_down blob_a) ''mysql://a'' = (nil, Some (OtherError ''connection refused'')) \<and>
   DataClient server0 = NoDatabase \<and>
   fst (tick sample_Unmarshal (env_data_down blob_a) server0) =
     server0\<lparr>GorseConfig := default_config\<lparr>DataStore := ''mysql://a'', CacheStore := ''redis://a''\<rparr>,
             DataClient := nil\<rparr> \<and>
   OpenData ''mysql://a'' \<in> set (snd (tick sample_Unmarshal (env_data_down blob_a)
       (fst (tick sample_Unmarshal (env_data_down blob_a) server0)))) \<and>
   cache_Open (env_cache_down blob_a) ''redis://a'' = (nil, Some (OtherError ''connection refused'')) \<and>
   cachePath (fst (tick sample_Unmarshal (env_cache_down blob_a) server0)) = [] \<and>
   CacheClient (fst (tick sample_Unmarshal (env_cache_down blob_a) server0)) = nil"
proof -
  let ?cfg = "default_config\<lparr>DataStore := ''mysql://a'', CacheStore := ''redis://a''\<rparr>"
  let ?err = "OtherError ''connection refused''"
  have g: "GorseConfig server0 = default_config" "dataPath server0 = []" "cachePath server0 = []"
    "DataClient server0 = NoDatabase"
    by (simp_all add: server0_def NewServer_def)
  have u: "sample_Unmarshal blob_a c = (c\<lparr>DataStore := ''mysql://a'', CacheStore := ''redis://a''\<rparr>, None)" for c
    by (simp add: sample_Unmarshal_def)
  have d1: "GetMeta_reply (env_data_down blob_a) = Inr \<lparr>Config = blob_a\<rparr> \<and>
      sample_Unmarshal (Config \<lparr>Config = blob_a\<rparr>) (GorseConfig server0) = (?cfg, None) \<and>
      dataPath server0 \<noteq> DataStore ?cfg \<and>
      data_Open (env_data_down blob_a) (DataStore ?cfg) = (nil, Some ?err)"
    by (simp add: env_data_down_def g u)
  have d2: "GetMeta_reply (env_data_down blob_a) = Inr \<lparr>Config = blob_a\<rparr> \<and>
      sample_Unmarshal (Config \<lparr>Config = blob_a\<rparr>) ?cfg = (?cfg, None)"
    by (simp add: env_data_down_def u)
  have a: "fst (tick sample_Unmarshal (env_data_down blob_a) server0) =
        server0\<lparr>GorseConfig := ?cfg, DataClient := nil\<rparr> \<and>
      OpenData (DataStore ?cfg) \<in> set (snd (tick sample_Unmarshal (env_data_down blob_a)
        (fst (tick sample_Unmarshal (env_data_down blob_a) server0))))"
    using failed_open_overwrites_handle [of "env_data_down blob_a" "\<lparr>Config = blob_a\<rparr>"
        sample_Unmarshal server0 ?cfg nil ?err "env_data_down blob_a" "\<lparr>Config = blob_a\<rparr>"]
      d1 d2
    by blast
  have c1: "GetMeta_reply (env_cache_down blob_a) = Inr \<lparr>Config = blob_a\<rparr> \<and>
      sample_Unmarshal (Config \<lparr>Config = blob_a\<rparr>) (GorseConfig server0) = (?cfg, None) \<and>
      (dataPath server0 = DataStore ?cfg \<or> snd (data_Open (env_cache_down blob_a) (DataStore ?cfg)) = None) \<and>
      cachePath server0 \<noteq> CacheStore ?cfg \<and>
      cache_Open (env_cache_down blob_a) (CacheStore ?cfg) = (nil, Some ?err)"
    by (simp add: env_cache_down_def g u)
  have b: "cachePath (fst (tick sample_Unmarshal (env_cache_down blob_a) server0)) = cachePath server0 \<and>
      CacheClient (fst (tick sample_Unmarshal (env_cache_down blob_a) server0)) = nil"
    using failed_open_overwrites_handle [of "env_cache_down blob_a" "\<lparr>Config = blob_a\<rparr>"
        sample_Unmarshal server0 ?cfg nil ?err "env_cache_down blob_a" "\<lparr>Config = blob_a\<rparr>"]
      c1
    by blast
  have e: "data_Open (env_data_down blob_a) ''mysql://a'' = (nil, Some ?err)"
    "cache_Open (env_cache_down blob_a) ''redis://a'' = (nil, Some ?err)"
    "GetMeta_reply (env_data_down blob_a) = Inr \<lparr>Config = blob_a\<rparr>"
    by (simp_all add: env_data_down_def env_cache_down_def)
  show ?thesis
    using a [THEN conjunct1] a [THEN conjunct2] b by (simp add: e g)
qed

section \<open>Identity bootstrap\<close>

lemma writes_simps:
  "writes [] = []"
  "writes (Log lv m # ev) = writes ev"
  "writes (Dial h q # ev) = writes ev"
  "writes (WriteLocalCache p n # ev) = WriteLocalCache p n # writes ev"
  "writes (xs @ ys) = writes xs @ writes ys"
  by (simp_all add: writes_def)

lemma connect_master_writes: "writes (snd (connect_master env s)) = []"
  by (simp add: connect_master_def Let_def writes_simps split: option.splits)

lemma connect_master_serverName:
  "fst (connect_master env s) = Started s' \<Longrightarrow> s' = s"
  by (simp add: connect_master_def Let_def split: option.splits)

text \<open>
  C8. A failed read of the local store costs one error line and nothing else: \<^verbatim>\<open>Serve\<close>
  goes on as it does on the same state read without an error. The state is written exactly
  when the name it holds is empty; then the name written is the one drawn at random, the
  write comes before anything but that error line, and a failed write ends the process with
  a fatal log. A name that is not empty is kept. In all there is at most one write.
\<close>

theorem Serve_identity_bootstrap:
  "(snd (LoadLocalCache_reply env (cacheFile s)) \<noteq> None \<longrightarrow>
      Serve env s =
        (case Serve (env\<lparr>LoadLocalCache_reply := \<lambda>p. (fst (LoadLocalCache_reply env p), None)\<rparr>) s of
           (r, ev) \<Rightarrow> (r, Log Error ''failed to connect local store'' # ev))) \<and>
   writes (snd (Serve env s)) =
     (if ServerName (fst (LoadLocalCache_reply env (cacheFile s))) = []
      then [WriteLocalCache (path (fst (LoadLocalCache_reply env (cacheFile s)))) (GetRandomName env 0)]
      else []) \<and>
   (ServerName (fst (LoadLocalCache_reply env (cacheFile s))) = [] \<longrightarrow>
      (\<exists>rest. snd (Serve env s) =
         (if snd (LoadLocalCache_reply env (cacheFile s)) \<noteq> None
          then [Log Error ''failed to connect local store''] else []) @
         WriteLocalCache (path (fst (LoadLocalCache_reply env (cacheFile s)))) (GetRandomName env 0) # rest)) \<and>
   (ServerName (fst (LoadLocalCache_reply env (cacheFile s))) = [] \<and>
    WriteLocalCache_reply env
      ((fst (LoadLocalCache_reply env (cacheFile s)))\<lparr>ServerName := GetRandomName env 0\<rparr>) \<noteq> None \<longrightarrow>
      fst (Serve env s) = Exit \<and> last (snd (Serve env s)) = Log Fatal ''failed to write meta'') \<and>
   (\<forall>s'. fst (Serve env s) = Started s' \<longrightarrow>
      serverName s' =
        (if ServerName (fst (LoadLocalCache_reply env (cacheFile s))) = [] then GetRandomName env 0
         else ServerName (fst (LoadLocalCache_reply env (cacheFile s))))) \<and>
   length (writes (snd (Serve env s))) \<le> 1"
proof (intro conjI impI allI)
  assume "snd (LoadLocalCache_reply env (cacheFile s)) \<noteq> None"
  then show "Serve env s =
        (case Serve (env\<lparr>LoadLocalCache_reply := \<lambda>p. (fst (LoadLocalCache_reply env p), None)\<rparr>) s of
           (r, ev) \<Rightarrow> (r, Log Error ''failed to connect local store'' # ev))"
    by (auto simp: Serve_def connect_master_def Let_def split_beta split: option.splits)
next
  show w: "writes (snd (Serve env s)) =
     (if ServerName (fst (LoadLocalCache_reply env (cacheFile s))) = []
      then [WriteLocalCache (path (fst (LoadLocalCache_reply env (cacheFile s)))) (GetRandomName env 0)]
      else [])"
    by (simp add: Serve_def Let_def split_beta writes_simps connect_master_writes split: option.splits)
  show "length (writes (snd (Serve env s))) \<le> 1"
    by (simp add: w)
next
  assume "ServerName (fst (LoadLocalCache_reply env (cacheFile s))) = []"
  then show "\<exists>rest. snd (Serve env s) =
         (if snd (LoadLocalCache_reply env (cacheFile s)) \<noteq> None
          then [Log Error ''failed to connect local store''] else []) @
         WriteLocalCache (path (fst (LoadLocalCache_reply env (cacheFile s)))) (GetRandomName env 0) # rest"
    by (auto simp: Serve_def Let_def split_beta split: option.splits)
next
  assume h: "ServerName (fst (LoadLocalCache_reply env (cacheFile s))) = [] \<and>
    WriteLocalCache_reply env
      ((fst (LoadLocalCache_reply env (cacheFile s)))\<lparr>ServerName := GetRandomName env 0\<rparr>) \<noteq> None"
  then show "fst (Serve env s) = Exit"
    by (auto simp: Serve_def Let_def split_beta split: option.splits)
  from h show "last (snd (Serve env s)) = Log Fatal ''failed to write meta''"
    by (auto simp: Serve_def Let_def split_beta split: option.splits)
next
  fix s'
  assume "fst (Serve env s) = Started s'"
  then show "serverName s' =
        (if ServerName (fst (LoadLocalCache_reply env (cacheFile s))) = [] then GetRandomName env 0
         else ServerName (fst (LoadLocalCache_reply env (cacheFile s))))"
    by (auto simp: Serve_def Let_def split_beta split: option.splits if_splits
        dest!: connect_master_serverName)
qed

theorem Serve_identity_bootstrap_witness:
  "snd (LoadLocalCache_reply (boot_unreadable (Some (OtherError ''disk full''))) (cacheFile server0)) \<noteq> None \<and>
   ServerName (fst (LoadLocalCache_reply (boot_unreadable (Some (OtherError ''disk full''))) (cacheFile server0))) = [] \<and>
   Serve (boot_unreadable (Some (OtherError ''disk full''))) server0 =
     (Exit, [Log Error ''failed to connect local store'',
             WriteLocalCache ''/tmp/server'' ''brave-otter'',
             Log Fatal ''failed to write meta'']) \<and>
   fst (Serve (boot_unreadable None) server0) = Started (server0\<lparr>serverName := ''brave-otter''\<rparr>) \<and>
   writes (snd (Serve boot_named server0)) = []"
proof -
  have a: "fst (Serve (boot_unreadable (Some (OtherError ''disk full''))) server0) = Exit"
    using Serve_identity_bootstrap [of "boot_unreadable (Some (OtherError ''disk full''))" server0,
        THEN conjunct2, THEN conjunct2, THEN conjunct2, THEN conjunct1]
    by (simp add: boot_unreadable_def)
  have b: "length (writes (snd (Serve (boot_unreadable None) server0))) \<le> 1"
    using Serve_identity_bootstrap [of "boot_unreadable None" server0]
    by blast
  have c: "writes (snd (Serve boot_named server0)) = []"
    using Serve_identity_bootstrap [of boot_named server0, THEN conjunct2, THEN conjunct1]
    by (simp add: boot_named_def)
  show ?thesis
    using a b c
    by (simp add: Serve_def connect_master_def boot_unreadable_def server0_def NewServer_def)
qed

end
